theory Spec2Isabelle
  imports Complex_Main "HOL-Library.Multiset"
begin

section \<open>Certificate rotation: the values the script handles\<close>

text \<open>
  The script \<^verbatim>\<open>19_01_2026_certificate_rotation.py\<close> works on parsed JSON: a
  service is a Python \<^verbatim>\<open>dict\<close> whose values may be any JSON value. A dict is
  kept as the list of its items (one entry per key), looked up with \<open>map_of\<close>.
  Python's \<^verbatim>\<open>None\<close> is \<open>JNull\<close>; a float is kept as the real number it denotes.
\<close>

datatype json =
    JNull
  | JBool bool
  | JInt int
  | JFloat real
  | JStr string
  | JArr "json list"
  | JObj "(string \<times> json) list"

type_synonym service = "(string \<times> json) list"

text \<open>\<^verbatim>\<open>d.get(key, default)\<close> and \<^verbatim>\<open>d.get(key)\<close> (default \<^verbatim>\<open>None\<close>).\<close>

definition dict_get :: "(string \<times> json) list \<Rightarrow> string \<Rightarrow> json \<Rightarrow> json" where
  "dict_get d k dflt = (case map_of d k of None \<Rightarrow> dflt | Some v \<Rightarrow> v)"

text \<open>Truth value of an object, as \<^verbatim>\<open>if not cert_data\<close> tests it.\<close>

fun truthy :: "json \<Rightarrow> bool" where
  "truthy JNull = False"
| "truthy (JBool b) = b"
| "truthy (JInt n) = (n \<noteq> 0)"
| "truthy (JFloat x) = (x \<noteq> 0)"
| "truthy (JStr s) = (s \<noteq> [])"
| "truthy (JArr xs) = (xs \<noteq> [])"
| "truthy (JObj kvs) = (kvs \<noteq> [])"

fun type_name :: "json \<Rightarrow> string" where
  "type_name JNull = ''NoneType''"
| "type_name (JBool b) = ''bool''"
| "type_name (JInt n) = ''int''"
| "type_name (JFloat x) = ''float''"
| "type_name (JStr s) = ''str''"
| "type_name (JArr xs) = ''list''"
| "type_name (JObj kvs) = ''dict''"

text \<open>
  Exceptions are values: the class the handlers discriminate on, and \<^verbatim>\<open>str(e)\<close>.
  Only subclasses of \<^verbatim>\<open>Exception\<close> are modelled; \<open>RequestException\<close> stands for
  \<^verbatim>\<open>requests.exceptions.RequestException\<close> and all its subclasses.
\<close>

datatype exc_class = RequestException | KeyError | AttributeError | ValueError | OtherException

datatype exc = Exc exc_class string

fun exc_str :: "exc \<Rightarrow> string" where
  "exc_str (Exc c m) = m"

fun is_request_exception :: "exc \<Rightarrow> bool" where
  "is_request_exception (Exc c m) = (c = RequestException)"

definition quoted :: "string \<Rightarrow> string" where
  "quoted s = CHR 0x27 # s @ [CHR 0x27]"

section \<open>The collaborators\<close>

text \<open>
  Every call that leaves the process is recorded as a \<open>call\<close>: a request through the
  \<^verbatim>\<open>requests\<close> session (URL, headers, JSON body, timeout) or a
  \<^verbatim>\<open>subprocess.run\<close> (argument vector, timeout). What the outside world answers
  is a parameter: an \<open>env\<close> gives, for one rotation task, the result of each call it
  makes, the readings of \<^verbatim>\<open>time.time()\<close> in the order the task takes them, and
  Python's formatting of a non-string value inside an f-string.
\<close>

datatype call =
    SessionGet string "(string \<times> string) list" int
  | SessionPost json "(string \<times> string) list" "json option" int
  | SubprocessRun "json list" int

record response =
  raise_for_status :: "exc option"
  json_body :: "exc + json"

record env =
  session_request :: "call \<Rightarrow> exc + response"
  subprocess_run :: "call \<Rightarrow> exc + int"
  time_time :: "nat \<Rightarrow> real"
  py_format :: "json \<Rightarrow> string"

text \<open>The module-level configuration read from the environment.\<close>

record config =
  VAULT_ADDR :: string
  VAULT_TOKEN :: string
  ROTATION_BEFORE_DAYS :: int
  MAX_WORKERS :: int
  REQUEST_TIMEOUT :: int

record rotator =
  vault_addr :: string
  vault_token :: string
  dry_run :: bool

definition fmt :: "env \<Rightarrow> json \<Rightarrow> string" where
  "fmt e v = (case v of JStr s \<Rightarrow> s | _ \<Rightarrow> py_format e v)"

section \<open>CertificateRotator\<close>

text \<open>
  Each method returns the calls it made together with its result. A method that can let
  an exception through returns \<open>exc + 'a\<close>.
\<close>

definition catch_request :: "json \<Rightarrow> exc \<Rightarrow> exc + json" where
  "catch_request dflt e = (if is_request_exception e then Inr dflt else Inl e)"

text \<open>\<^verbatim>\<open>response.json().get("data", {})\<close>\<close>

definition get_data :: "json \<Rightarrow> exc + json" where
  "get_data body =
     (case body of
        JObj kvs \<Rightarrow> Inr (dict_get kvs ''data'' (JObj []))
      | _ \<Rightarrow> Inl (Exc AttributeError
                 (quoted (type_name body) @ '' object has no attribute '' @ quoted ''get'')))"

definition read_data :: "env \<Rightarrow> call \<Rightarrow> exc + json" where
  "read_data e c =
     (case session_request e c of
        Inl x \<Rightarrow> Inl x
      | Inr resp \<Rightarrow>
          (case raise_for_status resp of
             Some x \<Rightarrow> Inl x
           | None \<Rightarrow>
               (case json_body resp of
                  Inl x \<Rightarrow> Inl x
                | Inr body \<Rightarrow> get_data body)))"

definition get_current_cert_info ::
  "env \<Rightarrow> config \<Rightarrow> rotator \<Rightarrow> json \<Rightarrow> call list \<times> (exc + json)" where
  "get_current_cert_info e cfg r cert_path =
     (let c = SessionGet (vault_addr r @ ''/v1/'' @ fmt e cert_path)
                [(''X-Vault-Token'', vault_token r)] (REQUEST_TIMEOUT cfg)
      in ([c], case read_data e c of Inl x \<Rightarrow> catch_request JNull x | Inr d \<Rightarrow> Inr d))"

definition request_new_certificate ::
  "env \<Rightarrow> config \<Rightarrow> rotator \<Rightarrow> json \<Rightarrow> json \<Rightarrow> call list \<times> (exc + json)" where
  "request_new_certificate e cfg r cert_path common_name =
     (if dry_run r
      then ([], Inr (JObj [(''certificate'', JStr ''fake_cert''),
                           (''private_key'', JStr ''fake_key'')]))
      else
        let c = SessionPost (JStr (vault_addr r @ ''/v1/'' @ fmt e cert_path))
                  [(''X-Vault-Token'', vault_token r)]
                  (Some (JObj [(''common_name'', common_name)])) (REQUEST_TIMEOUT cfg)
        in ([c], case read_data e c of Inl x \<Rightarrow> catch_request JNull x | Inr d \<Rightarrow> Inr d))"

definition reload_via_http ::
  "env \<Rightarrow> config \<Rightarrow> rotator \<Rightarrow> json \<Rightarrow> call list \<times> (exc + bool)" where
  "reload_via_http e cfg r endpoint =
     (if dry_run r then ([], Inr True)
      else
        let c = SessionPost endpoint [] None (REQUEST_TIMEOUT cfg)
        in ([c],
            case session_request e c of
              Inl x \<Rightarrow> (if is_request_exception x then Inr False else Inl x)
            | Inr resp \<Rightarrow>
                (case raise_for_status resp of
                   Some x \<Rightarrow> (if is_request_exception x then Inr False else Inl x)
                 | None \<Rightarrow> Inr True)))"

definition reload_via_systemd :: "env \<Rightarrow> rotator \<Rightarrow> json \<Rightarrow> call list \<times> bool" where
  "reload_via_systemd e r service_name =
     (if dry_run r then ([], True)
      else
        let c = SubprocessRun [JStr ''systemctl'', JStr ''reload'', service_name] 30
        in ([c], case subprocess_run e c of Inl x \<Rightarrow> False | Inr rc \<Rightarrow> rc = 0))"

definition reload_via_kubernetes ::
  "env \<Rightarrow> rotator \<Rightarrow> json \<Rightarrow> json \<Rightarrow> call list \<times> bool" where
  "reload_via_kubernetes e r namespace deployment =
     (if dry_run r then ([], True)
      else
        let c = SubprocessRun
                  [JStr ''kubectl'', JStr ''rollout'', JStr ''restart'',
                   JStr (''deployment/'' @ fmt e deployment), JStr ''-n'', namespace] 60
        in ([c], case subprocess_run e c of Inl x \<Rightarrow> False | Inr rc \<Rightarrow> rc = 0))"

definition reload_service :: "env \<Rightarrow> config \<Rightarrow> rotator \<Rightarrow> service \<Rightarrow> call list \<times> bool" where
  "reload_service e cfg r svc =
     (let reload_method = dict_get svc ''reload_method'' (JStr ''http'')
      in if reload_method = JStr ''http''
         then (case reload_via_http e cfg r (dict_get svc ''reload_endpoint'' JNull) of
                 (cs, Inl x) \<Rightarrow> (cs, False)
               | (cs, Inr b) \<Rightarrow> (cs, b))
         else if reload_method = JStr ''systemd''
         then reload_via_systemd e r (dict_get svc ''service_name'' JNull)
         else if reload_method = JStr ''kubernetes''
         then reload_via_kubernetes e r (dict_get svc ''namespace'' JNull)
                (dict_get svc ''deployment'' JNull)
         else ([], False))"

text \<open>
  The result dict of \<^verbatim>\<open>rotate_certificate\<close>: the key \<^verbatim>\<open>"error"\<close> is present
  or absent, so the field is an option; the status is the string the code writes.
\<close>

record rotation_result =
  service :: json
  status :: string
  error :: "string option"
  duration :: real

text \<open>The body of the \<^verbatim>\<open>try\<close> block, then the method with its handler.\<close>

definition rotate_certificate_try ::
  "env \<Rightarrow> config \<Rightarrow> rotator \<Rightarrow> service \<Rightarrow> call list \<times> (exc + rotation_result)" where
  "rotate_certificate_try e cfg r svc =
     (let service_name = dict_get svc ''name'' (JStr ''unknown'');
          start_time = time_time e 0
      in case map_of svc ''cert_path'' of
           None \<Rightarrow> ([], Inl (Exc KeyError (quoted ''cert_path'')))
         | Some cert_path \<Rightarrow>
             (case request_new_certificate e cfg r cert_path
                     (dict_get svc ''common_name'' service_name) of
                (cs, Inl x) \<Rightarrow> (cs, Inl x)
              | (cs, Inr cert_data) \<Rightarrow>
                  if \<not> truthy cert_data
                  then (cs, Inr \<lparr>service = service_name, status = ''failed'',
                                 error = Some ''Failed to get new certificate'',
                                 duration = time_time e 1 - start_time\<rparr>)
                  else
                    (case reload_service e cfg r svc of
                       (cs', ok) \<Rightarrow>
                         if ok
                         then (cs @ cs', Inr \<lparr>service = service_name, status = ''success'',
                                               error = None,
                                               duration = time_time e 1 - start_time\<rparr>)
                         else (cs @ cs', Inr \<lparr>service = service_name, status = ''partial'',
                                               error = Some ''Certificate rotated but service reload failed'',
                                               duration = time_time e 1 - start_time\<rparr>))))"

definition rotate_certificate ::
  "env \<Rightarrow> config \<Rightarrow> rotator \<Rightarrow> service \<Rightarrow> call list \<times> rotation_result" where
  "rotate_certificate e cfg r svc =
     (case rotate_certificate_try e cfg r svc of
        (cs, Inl x) \<Rightarrow>
          (cs, \<lparr>service = dict_get svc ''name'' (JStr ''unknown''), status = ''failed'',
                error = Some (exc_str x),
                duration = time_time e 1 - time_time e 0\<rparr>)
      | (cs, Inr res) \<Rightarrow> (cs, res))"

section \<open>Expiry evaluation\<close>

text \<open>
  A parsed \<^verbatim>\<open>datetime\<close>: its wall-clock fields as microseconds since the epoch, and
  its UTC offset in microseconds when it is aware. \<^verbatim>\<open>datetime.fromisoformat\<close> is a
  parameter: \<open>None\<close> is its \<^verbatim>\<open>ValueError\<close>. The current time is the instant
  \<^verbatim>\<open>datetime.now(timezone.utc)\<close>, in microseconds since the epoch.
\<close>

record datetime =
  wall_us :: int
  utcoffset_us :: "int option"

definition endswith_Z :: "string \<Rightarrow> bool" where
  "endswith_Z s = (s \<noteq> [] \<and> last s = CHR ''Z'')"

definition timedelta_days :: "int \<Rightarrow> int" where
  "timedelta_days us = us div 86400000000"

definition days_until_expiry :: "(string \<Rightarrow> datetime option) \<Rightarrow> int \<Rightarrow> json \<Rightarrow> int" where
  "days_until_expiry fromisoformat now expiry_iso =
     (case expiry_iso of
        JStr s \<Rightarrow>
          (let s1 = (if endswith_Z s then butlast s @ ''+00:00'' else s)
           in case fromisoformat s1 of
                None \<Rightarrow> 0
              | Some expiry \<Rightarrow>
                  (let off = (case utcoffset_us expiry of None \<Rightarrow> 0 | Some d \<Rightarrow> d)
                   in timedelta_days (wall_us expiry - off - now)))
      | _ \<Rightarrow> 0)"

text \<open>
  The timestamps \<^verbatim>\<open>days_until_expiry\<close> cannot parse: a value that is not a string
  (\<^verbatim>\<open>AttributeError\<close>) or a string \<^verbatim>\<open>fromisoformat\<close> rejects.
\<close>

definition unparseable :: "(string \<Rightarrow> datetime option) \<Rightarrow> json \<Rightarrow> bool" where
  "unparseable fromisoformat expiry_iso =
     (case expiry_iso of
        JStr s \<Rightarrow> fromisoformat (if endswith_Z s then butlast s @ ''+00:00'' else s) = None
      | _ \<Rightarrow> True)"

section \<open>One pass: \<^verbatim>\<open>main\<close>\<close>

definition fake_expiry_date :: json where
  "fake_expiry_date = JStr ''2026-02-15T00:00:00Z''"

text \<open>
  The selection loop. \<open>now i\<close> is the clock reading taken for the service at
  position \<open>i\<close> of the configuration (the loop reads the clock once per service).
\<close>

fun services_to_rotate ::
  "config \<Rightarrow> bool \<Rightarrow> (string \<Rightarrow> datetime option) \<Rightarrow> (nat \<Rightarrow> int) \<Rightarrow> nat \<Rightarrow>
   service list \<Rightarrow> service list" where
  "services_to_rotate cfg force fromiso now i [] = []"
| "services_to_rotate cfg force fromiso now i (svc # rest) =
     (if force then svc # services_to_rotate cfg force fromiso now (Suc i) rest
      else if days_until_expiry fromiso (now i) fake_expiry_date \<le> ROTATION_BEFORE_DAYS cfg
      then svc # services_to_rotate cfg force fromiso now (Suc i) rest
      else services_to_rotate cfg force fromiso now (Suc i) rest)"

text \<open>
  \<^verbatim>\<open>as_completed\<close> yields the futures in the order they finish, which the code does
  not control: \<open>pick\<close> chooses, among the futures still pending, the one that finishes
  next.
\<close>

function as_completed :: "('a list \<Rightarrow> nat) \<Rightarrow> 'a list \<Rightarrow> 'a list" where
  "as_completed pick fs =
     (if fs = [] then []
      else let i = pick fs mod length fs
           in fs ! i # as_completed pick (take i fs @ drop (Suc i) fs))"
  by pat_completeness auto
termination
proof (relation "measure (\<lambda>(pick, fs). length fs)")
  show "wf (measure (\<lambda>(pick :: 'a list \<Rightarrow> nat, fs :: 'a list). length fs))"
    by simp
next
  fix pick :: "'a list \<Rightarrow> nat" and fs :: "'a list" and i :: nat
  assume ne: "fs \<noteq> []" and i: "i = pick fs mod length fs"
  from ne have "i < length fs"
    unfolding i by simp
  then show "((pick, take i fs @ drop (Suc i) fs), (pick, fs))
               \<in> measure (\<lambda>(pick, fs). length fs)"
    by simp
qed

text \<open>
  The tasks of a pass, in submission order: task \<open>i\<close> runs \<open>rotate_certificate\<close> on
  the \<open>i\<close>-th selected service and sees the collaborators as \<open>envs i\<close>.
\<close>

definition submit_all ::
  "(nat \<Rightarrow> env) \<Rightarrow> config \<Rightarrow> rotator \<Rightarrow> service list \<Rightarrow> (call list \<times> rotation_result) list" where
  "submit_all envs cfg r svcs =
     map (\<lambda>i. rotate_certificate (envs i) cfg r (svcs ! i)) [0..<length svcs]"

text \<open>
  \<open>main_tasks\<close> is what the pass ran, \<open>main\<close> is the list \<^verbatim>\<open>rotation_results\<close>
  when \<^verbatim>\<open>main\<close> ends. \<^verbatim>\<open>ThreadPoolExecutor\<close> raises \<^verbatim>\<open>ValueError\<close> for a
  worker count that is not positive, and \<^verbatim>\<open>main\<close> does not catch it.
\<close>

definition main_tasks ::
  "config \<Rightarrow> bool \<Rightarrow> bool \<Rightarrow> (string \<Rightarrow> datetime option) \<Rightarrow> (nat \<Rightarrow> int) \<Rightarrow> (nat \<Rightarrow> env) \<Rightarrow>
   service list \<Rightarrow> exc + (call list \<times> rotation_result) list" where
  "main_tasks cfg force dry fromiso now envs services =
     (if services = [] then Inr []
      else
        let r = \<lparr>vault_addr = VAULT_ADDR cfg, vault_token = VAULT_TOKEN cfg, dry_run = dry\<rparr>;
            sel = services_to_rotate cfg force fromiso now 0 services
        in if sel = [] then Inr []
           else if MAX_WORKERS cfg \<le> 0
           then Inl (Exc ValueError ''max_workers must be greater than 0'')
           else Inr (submit_all envs cfg r sel))"

definition main ::
  "config \<Rightarrow> bool \<Rightarrow> bool \<Rightarrow> (string \<Rightarrow> datetime option) \<Rightarrow> (nat \<Rightarrow> int) \<Rightarrow> (nat \<Rightarrow> env) \<Rightarrow>
   ((call list \<times> rotation_result) list \<Rightarrow> nat) \<Rightarrow> service list \<Rightarrow> exc + rotation_result list" where
  "main cfg force dry fromiso now envs pick services =
     (case main_tasks cfg force dry fromiso now envs services of
        Inl x \<Rightarrow> Inl x
      | Inr tasks \<Rightarrow> Inr (map snd (as_completed pick tasks)))"

text \<open>The name a result reports for a service, and the calls that read the store.\<close>

definition reported_name :: "service \<Rightarrow> json" where
  "reported_name svc = dict_get svc ''name'' (JStr ''unknown'')"

fun is_store_read :: "call \<Rightarrow> bool" where
  "is_store_read (SessionGet url headers timeout) = True"
| "is_store_read (SessionPost url headers body timeout) = False"
| "is_store_read (SubprocessRun argv timeout) = False"

section \<open>The retry policy of the session\<close>






section \<open>Sample inputs\<close>

definition ok_response :: response where
  "ok_response = \<lparr>raise_for_status = None,
     json_body = Inr (JObj [(''data'', JObj [(''certificate'', JStr ''PEM'')])])\<rparr>"

definition healthy_env :: env where
  "healthy_env = \<lparr>session_request = (\<lambda>c. Inr ok_response), subprocess_run = (\<lambda>c. Inr 0),
     time_time = (\<lambda>k. real k), py_format = (\<lambda>v. ''?'')\<rparr>"

definition default_config :: config where
  "default_config = \<lparr>VAULT_ADDR = ''https://vault.company.internal'', VAULT_TOKEN = ''s.xxxxx'',
     ROTATION_BEFORE_DAYS = 30, MAX_WORKERS = 10, REQUEST_TIMEOUT = 30\<rparr>"

definition live_rotator :: rotator where
  "live_rotator = \<lparr>vault_addr = ''https://vault.company.internal'', vault_token = ''s.xxxxx'',
     dry_run = False\<rparr>"

definition payments_api :: service where
  "payments_api = [(''name'', JStr ''payments-api''), (''cert_path'', JStr ''pki/issue/payments''),
     (''common_name'', JStr ''payments.company.com''), (''reload_method'', JStr ''http''),
     (''reload_endpoint'', JStr ''http://payments.internal/reload'')]"

definition stepped_back_env :: env where
  "stepped_back_env = \<lparr>session_request = (\<lambda>c. Inr ok_response), subprocess_run = (\<lambda>c. Inr 0),
     time_time = (\<lambda>k. if k = 0 then 10 else 9), py_format = (\<lambda>v. ''?'')\<rparr>"

definition legacy_service :: service where
  "legacy_service = [(''name'', JStr ''legacy-api''), (''cert_path'', JStr ''pki/issue/legacy''),
     (''reload_endpoint'', JStr ''http://legacy.internal/reload'')]"

definition no_cert_path_service :: service where
  "no_cert_path_service = [(''name'', JStr ''orphan''), (''reload_method'', JStr ''http'')]"

definition unknown_method_service :: service where
  "unknown_method_service = [(''name'', JStr ''batch-worker''), (''cert_path'', JStr ''pki/issue/batch''),
     (''reload_method'', JStr ''sighup'')]"

definition dry_rotator :: rotator where
  "dry_rotator = \<lparr>vault_addr = ''https://vault.company.internal'', vault_token = ''s.xxxxx'',
     dry_run = True\<rparr>"

definition crashing_env :: env where
  "crashing_env = \<lparr>session_request = (\<lambda>c. Inl (Exc OtherException ''boom'')),
     subprocess_run = (\<lambda>c. Inr 0), time_time = (\<lambda>k. real k), py_format = (\<lambda>v. ''?'')\<rparr>"

definition zero_workers_config :: config where
  "zero_workers_config = \<lparr>VAULT_ADDR = ''https://vault.company.internal'', VAULT_TOKEN = ''s.xxxxx'',
     ROTATION_BEFORE_DAYS = 30, MAX_WORKERS = 0, REQUEST_TIMEOUT = 30\<rparr>"

definition unreachable_env :: env where
  "unreachable_env = \<lparr>session_request = (\<lambda>c. Inl (Exc RequestException ''connection refused'')),
     subprocess_run = (\<lambda>c. Inl (Exc OtherException ''command not found'')),
     time_time = (\<lambda>k. real k), py_format = (\<lambda>v. ''?'')\<rparr>"

definition fromisoformat_sample :: "string \<Rightarrow> datetime option" where
  "fromisoformat_sample s =
     (if s = ''2026-02-15T00:00:00+00:00''
      then Some \<lparr>wall_us = 1771113600000000, utcoffset_us = Some 0\<rparr> else None)"

definition jan_2025 :: int where
  "jan_2025 = 1735689600000000"

definition feb_2026 :: int where
  "feb_2026 = 1769904000000000"

definition negative_lead_config :: config where
  "negative_lead_config = \<lparr>VAULT_ADDR = ''https://vault.company.internal'', VAULT_TOKEN = ''s.xxxxx'',
     ROTATION_BEFORE_DAYS = - 1, MAX_WORKERS = 10, REQUEST_TIMEOUT = 30\<rparr>"

section \<open>Properties\<close>

lemma healthy_env_sel:
  "session_request healthy_env c = Inr ok_response"
  "subprocess_run healthy_env c = Inr 0"
  "time_time healthy_env k = real k"
  by (simp_all add: healthy_env_def)

lemma read_data_ok: "read_data healthy_env c = Inr (JObj [(''certificate'', JStr ''PEM'')])"
  by (simp add: read_data_def healthy_env_sel ok_response_def get_data_def dict_get_def)

lemma rotate_payments:
  "snd (rotate_certificate healthy_env default_config live_rotator payments_api) =
     \<lparr>service = JStr ''payments-api'', status = ''success'', error = None, duration = 1\<rparr>"
  by (simp add: rotate_certificate_def rotate_certificate_try_def request_new_certificate_def
      reload_service_def reload_via_http_def read_data_ok dict_get_def payments_api_def
      live_rotator_def Let_def healthy_env_sel ok_response_def)

text \<open>
  Claim C3. The status of a rotation is \<open>failed\<close> when issuance fails (the service has
  no \<open>cert_path\<close>, \<open>request_new_certificate\<close> raises, or it returns a falsy value),
  \<open>success\<close> when issuance succeeds and \<open>reload_service\<close> then returns true, and
  \<open>partial\<close> when issuance succeeds and the reload returns false.
\<close>

theorem rotate_certificate_status:
  "status (snd (rotate_certificate e cfg r svc)) =
     (case map_of svc ''cert_path'' of
        None \<Rightarrow> ''failed''
      | Some p \<Rightarrow>
          (case snd (request_new_certificate e cfg r p
                      (dict_get svc ''common_name'' (dict_get svc ''name'' (JStr ''unknown'')))) of
             Inl x \<Rightarrow> ''failed''
           | Inr cert_data \<Rightarrow>
               if \<not> truthy cert_data then ''failed''
               else if snd (reload_service e cfg r svc) then ''success'' else ''partial''))"
  by (simp add: rotate_certificate_def rotate_certificate_try_def Let_def
      split: option.splits prod.splits sum.splits)

text \<open>
  Claim C10, as amended. Whatever the service and whatever issuance and reload do, the
  record returned by \<open>rotate_certificate\<close> carries the service name, a status among
  \<open>success\<close>, \<open>partial\<close> and \<open>failed\<close>, and as duration the second reading of
  \<^verbatim>\<open>time.time()\<close> minus the first, which is not negative exactly when the clock did
  not go back between the two; it has no error detail exactly when the status is
  \<open>success\<close>.
\<close>

theorem rotate_certificate_record:
  "service (snd (rotate_certificate e cfg r svc)) = dict_get svc ''name'' (JStr ''unknown'') \<and>
   status (snd (rotate_certificate e cfg r svc)) \<in> {''success'', ''partial'', ''failed''} \<and>
   duration (snd (rotate_certificate e cfg r svc)) = time_time e 1 - time_time e 0 \<and>
   (0 \<le> duration (snd (rotate_certificate e cfg r svc))) = (time_time e 0 \<le> time_time e 1) \<and>
   (status (snd (rotate_certificate e cfg r svc)) = ''success'')
     = (error (snd (rotate_certificate e cfg r svc)) = None)"
proof -
  have d: "duration (snd (rotate_certificate e cfg r svc)) = time_time e 1 - time_time e 0"
    by (simp add: rotate_certificate_def rotate_certificate_try_def Let_def
        split: option.splits prod.splits sum.splits)
  have n: "service (snd (rotate_certificate e cfg r svc)) = dict_get svc ''name'' (JStr ''unknown'')"
    by (simp add: rotate_certificate_def rotate_certificate_try_def Let_def
        split: option.splits prod.splits sum.splits)
  have st: "status (snd (rotate_certificate e cfg r svc)) \<in> {''success'', ''partial'', ''failed''}"
    by (simp add: rotate_certificate_def rotate_certificate_try_def Let_def
        split: option.splits prod.splits sum.splits)
  have er: "(status (snd (rotate_certificate e cfg r svc)) = ''success'')
     = (error (snd (rotate_certificate e cfg r svc)) = None)"
    by (simp add: rotate_certificate_def rotate_certificate_try_def Let_def
        split: option.splits prod.splits sum.splits)
  have nn: "(0 \<le> duration (snd (rotate_certificate e cfg r svc))) = (time_time e 0 \<le> time_time e 1)"
    by (simp add: d)
  from n st d nn er show ?thesis
    by blast
qed

theorem rotate_certificate_record_witness:
  "service (snd (rotate_certificate healthy_env default_config live_rotator payments_api))
     = JStr ''payments-api'' \<and>
   status (snd (rotate_certificate healthy_env default_config live_rotator payments_api)) = ''success'' \<and>
   duration (snd (rotate_certificate healthy_env default_config live_rotator payments_api)) = 1 \<and>
   error (snd (rotate_certificate healthy_env default_config live_rotator payments_api)) = None"
  using rotate_certificate_record [of healthy_env default_config live_rotator payments_api]
  by (simp add: rotate_payments)

lemma stepped_back_env_sel:
  "session_request stepped_back_env c = Inr ok_response"
  "time_time stepped_back_env 0 = 10"
  "time_time stepped_back_env (Suc 0) = 9"
  by (simp_all add: stepped_back_env_def)

lemma read_data_stepped_back:
  "read_data stepped_back_env c = Inr (JObj [(''certificate'', JStr ''PEM'')])"
  by (simp add: read_data_def stepped_back_env_sel ok_response_def get_data_def dict_get_def)

text \<open>
  Claim C10 as stated promises a duration that is never negative. The clock below reads 10
  when the rotation starts and 9 when it returns: the rotation succeeds with duration
  \<open>-1\<close>.
\<close>

theorem negative_duration_counterexample:
  "time_time stepped_back_env 0 = 10 \<and> time_time stepped_back_env 1 = 9 \<and>
   snd (rotate_certificate stepped_back_env default_config live_rotator payments_api) =
     \<lparr>service = JStr ''payments-api'', status = ''success'', error = None, duration = - 1\<rparr> \<and>
   duration (snd (rotate_certificate stepped_back_env default_config live_rotator payments_api)) < 0"
  by (simp add: rotate_certificate_def rotate_certificate_try_def request_new_certificate_def
      reload_service_def reload_via_http_def read_data_stepped_back dict_get_def payments_api_def
      live_rotator_def Let_def stepped_back_env_sel ok_response_def)

declare as_completed.simps [simp del]

lemma as_completed_Nil: "as_completed pick [] = []"
  by (simp add: as_completed.simps)

lemma mset_as_completed: "mset (as_completed pick fs) = mset fs"
proof (induction pick fs rule: as_completed.induct)
  case (1 pick fs)
  show ?case
  proof (cases "fs = []")
    case True
    then show ?thesis by (simp add: as_completed_Nil)
  next
    case False
    define i where "i = pick fs mod length fs"
    from False have lt: "i < length fs"
      by (simp add: i_def)
    have unfold: "as_completed pick fs = fs ! i # as_completed pick (take i fs @ drop (Suc i) fs)"
      using False by (subst as_completed.simps) (simp add: i_def Let_def)
    have ih: "mset (as_completed pick (take i fs @ drop (Suc i) fs))
                = mset (take i fs @ drop (Suc i) fs)"
      using "1.IH" [OF False i_def] .
    have "mset fs = mset (take i fs @ fs ! i # drop (Suc i) fs)"
      using id_take_nth_drop [OF lt] by simp
    then show ?thesis
      by (simp add: unfold ih)
  qed
qed

lemma length_as_completed: "length (as_completed pick fs) = length fs"
  using mset_as_completed [of pick fs] by (metis size_mset)

lemma rotate_certificate_service:
  "service (snd (rotate_certificate e cfg r svc)) = dict_get svc ''name'' (JStr ''unknown'')"
  by (simp add: rotate_certificate_def rotate_certificate_try_def Let_def
      split: option.splits prod.splits sum.splits)

lemma services_to_rotate_force:
  "services_to_rotate cfg True fromiso now i svcs = svcs"
  by (induction svcs arbitrary: i) simp_all

lemma length_submit_all: "length (submit_all envs cfg r svcs) = length svcs"
  by (simp add: submit_all_def)

lemma main_tasks_length:
  "main_tasks cfg force dry fromiso now envs services = Inr tasks \<Longrightarrow>
   length tasks = length (services_to_rotate cfg force fromiso now 0 services)"
  by (auto simp: main_tasks_def Let_def length_submit_all split: if_splits)

lemma rotate_certificate_try_raises:
  "(snd (rotate_certificate_try e cfg r svc) = Inl x) =
     (case map_of svc ''cert_path'' of
        None \<Rightarrow> x = Exc KeyError (quoted ''cert_path'')
      | Some p \<Rightarrow>
          snd (request_new_certificate e cfg r p
                (dict_get svc ''common_name'' (dict_get svc ''name'' (JStr ''unknown'')))) = Inl x)"
  by (auto simp: rotate_certificate_try_def Let_def split: option.splits prod.splits sum.splits)

lemma request_new_certificate_raises:
  "snd (request_new_certificate e cfg r p cn) = Inl x \<Longrightarrow> \<not> is_request_exception x"
  by (auto simp: request_new_certificate_def catch_request_def Let_def
      split: if_splits sum.splits)

lemma rotate_certificate_handler:
  "case snd (rotate_certificate_try e cfg r svc) of
      Inl x \<Rightarrow> snd (rotate_certificate e cfg r svc) =
                 \<lparr>service = dict_get svc ''name'' (JStr ''unknown''), status = ''failed'',
                  error = Some (exc_str x), duration = time_time e 1 - time_time e 0\<rparr>
    | Inr res \<Rightarrow> snd (rotate_certificate e cfg r svc) = res"
  by (simp add: rotate_certificate_def split: prod.splits sum.splits)

lemma services_to_rotate_Nil:
  "services_to_rotate cfg force fromiso now i [] = []"
  by simp

lemma main_no_selection:
  assumes "services_to_rotate cfg force fromiso now 0 services = []"
  shows "main cfg force dry fromiso now envs pick services = Inr []"
  using assms by (simp add: main_def main_tasks_def Let_def as_completed_Nil)

lemma main_no_workers:
  assumes "services_to_rotate cfg force fromiso now 0 services \<noteq> []" and "MAX_WORKERS cfg \<le> 0"
  shows "main cfg force dry fromiso now envs pick services =
           Inl (Exc ValueError ''max_workers must be greater than 0'')"
proof -
  from assms(1) have "services \<noteq> []"
    by (cases services) simp_all
  then show ?thesis
    using assms by (simp add: main_def main_tasks_def Let_def)
qed

lemma main_outcomes:
  assumes "services_to_rotate cfg force fromiso now 0 services \<noteq> []" and "\<not> MAX_WORKERS cfg \<le> 0"
  shows "\<exists>results. main cfg force dry fromiso now envs pick services = Inr results \<and>
           mset results =
             mset (map (\<lambda>i. snd (rotate_certificate (envs i) cfg
                                   \<lparr>vault_addr = VAULT_ADDR cfg, vault_token = VAULT_TOKEN cfg,
                                      dry_run = dry\<rparr>
                                   (services_to_rotate cfg force fromiso now 0 services ! i)))
                    [0..<length (services_to_rotate cfg force fromiso now 0 services)])"
proof -
  let ?sel = "services_to_rotate cfg force fromiso now 0 services"
  let ?rot = "\<lparr>vault_addr = VAULT_ADDR cfg, vault_token = VAULT_TOKEN cfg, dry_run = dry\<rparr>"
  from assms(1) have ne: "services \<noteq> []"
    by (cases services) simp_all
  have t: "main_tasks cfg force dry fromiso now envs services = Inr (submit_all envs cfg ?rot ?sel)"
    using ne assms by (simp add: main_tasks_def Let_def)
  have m: "main cfg force dry fromiso now envs pick services
             = Inr (map snd (as_completed pick (submit_all envs cfg ?rot ?sel)))"
    by (simp add: main_def t)
  have "mset (map snd (as_completed pick (submit_all envs cfg ?rot ?sel)))
          = image_mset snd (mset (as_completed pick (submit_all envs cfg ?rot ?sel)))"
    by simp
  also have "\<dots> = image_mset snd (mset (submit_all envs cfg ?rot ?sel))"
    by (simp only: mset_as_completed)
  also have "\<dots> = mset (map snd (submit_all envs cfg ?rot ?sel))"
    by simp
  also have "map snd (submit_all envs cfg ?rot ?sel)
               = map (\<lambda>i. snd (rotate_certificate (envs i) cfg ?rot (?sel ! i))) [0..<length ?sel]"
    by (simp add: submit_all_def)
  finally show ?thesis
    using m by blast
qed

text \<open>
  Claim C4, as amended. The \<open>try\<close> block of a rotation raises exactly when the service
  has no \<open>cert_path\<close> (a \<open>KeyError\<close>) or issuance lets through an exception that is
  not a request exception; the rotation then returns the \<open>failed\<close> record whose error
  is the exception's string, and otherwise the record the block returned, so a rotation
  never raises. A pass with nothing selected ends with no outcome; one whose worker count is
  not positive ends in the \<open>ValueError\<close> of the pool, with no outcome; every other pass
  completes with exactly the records the rotations of the selected services return, in
  some order.
\<close>

theorem rotation_task_never_raises:
  "(snd (rotate_certificate_try e cfg r svc) = Inl x) =
     (case map_of svc ''cert_path'' of
        None \<Rightarrow> x = Exc KeyError (quoted ''cert_path'')
      | Some p \<Rightarrow>
          snd (request_new_certificate e cfg r p
                (dict_get svc ''common_name'' (dict_get svc ''name'' (JStr ''unknown'')))) = Inl x \<and>
          \<not> is_request_exception x) \<and>
   (case snd (rotate_certificate_try e cfg r svc) of
      Inl x \<Rightarrow> snd (rotate_certificate e cfg r svc) =
                 \<lparr>service = dict_get svc ''name'' (JStr ''unknown''), status = ''failed'',
                  error = Some (exc_str x), duration = time_time e 1 - time_time e 0\<rparr>
    | Inr res \<Rightarrow> snd (rotate_certificate e cfg r svc) = res) \<and>
   (if services_to_rotate cfg force fromiso now 0 services = []
    then main cfg force dry fromiso now envs pick services = Inr []
    else if MAX_WORKERS cfg \<le> 0
    then main cfg force dry fromiso now envs pick services =
           Inl (Exc ValueError ''max_workers must be greater than 0'')
    else \<exists>results. main cfg force dry fromiso now envs pick services = Inr results \<and>
           mset results =
             mset (map (\<lambda>i. snd (rotate_certificate (envs i) cfg
                                   \<lparr>vault_addr = VAULT_ADDR cfg, vault_token = VAULT_TOKEN cfg,
                                      dry_run = dry\<rparr>
                                   (services_to_rotate cfg force fromiso now 0 services ! i)))
                    [0..<length (services_to_rotate cfg force fromiso now 0 services)]))"
proof (intro conjI)
  show "(snd (rotate_certificate_try e cfg r svc) = Inl x) =
     (case map_of svc ''cert_path'' of
        None \<Rightarrow> x = Exc KeyError (quoted ''cert_path'')
      | Some p \<Rightarrow>
          snd (request_new_certificate e cfg r p
                (dict_get svc ''common_name'' (dict_get svc ''name'' (JStr ''unknown'')))) = Inl x \<and>
          \<not> is_request_exception x)"
    using request_new_certificate_raises [of e cfg r _ _ x]
    by (auto simp: rotate_certificate_try_raises split: option.splits)
next
  show "case snd (rotate_certificate_try e cfg r svc) of
      Inl x \<Rightarrow> snd (rotate_certificate e cfg r svc) =
                 \<lparr>service = dict_get svc ''name'' (JStr ''unknown''), status = ''failed'',
                  error = Some (exc_str x), duration = time_time e 1 - time_time e 0\<rparr>
    | Inr res \<Rightarrow> snd (rotate_certificate e cfg r svc) = res"
    by (rule rotate_certificate_handler)
next
  show "if services_to_rotate cfg force fromiso now 0 services = []
    then main cfg force dry fromiso now envs pick services = Inr []
    else if MAX_WORKERS cfg \<le> 0
    then main cfg force dry fromiso now envs pick services =
           Inl (Exc ValueError ''max_workers must be greater than 0'')
    else \<exists>results. main cfg force dry fromiso now envs pick services = Inr results \<and>
           mset results =
             mset (map (\<lambda>i. snd (rotate_certificate (envs i) cfg
                                   \<lparr>vault_addr = VAULT_ADDR cfg, vault_token = VAULT_TOKEN cfg,
                                      dry_run = dry\<rparr>
                                   (services_to_rotate cfg force fromiso now 0 services ! i)))
                    [0..<length (services_to_rotate cfg force fromiso now 0 services)])"
    using main_no_selection [of cfg force fromiso now services dry envs pick]
      main_no_workers [of cfg force fromiso now services dry envs pick]
      main_outcomes [of cfg force fromiso now services dry envs pick]
    by (simp split: if_splits)
qed

lemma crashing_env_sel:
  "session_request crashing_env c = Inl (Exc OtherException ''boom'')"
  "time_time crashing_env k = real k"
  by (simp_all add: crashing_env_def)

lemma crashing_issuance:
  "snd (request_new_certificate crashing_env default_config live_rotator p cn)
     = Inl (Exc OtherException ''boom'')"
  by (simp add: request_new_certificate_def read_data_def catch_request_def crashing_env_sel
      live_rotator_def Let_def)

lemma default_rotator:
  "\<lparr>vault_addr = VAULT_ADDR default_config, vault_token = VAULT_TOKEN default_config,
     dry_run = False\<rparr> = live_rotator"
  by (simp add: default_config_def live_rotator_def)

lemma default_workers: "\<not> MAX_WORKERS default_config \<le> 0"
  by (simp add: default_config_def)

theorem rotation_task_never_raises_witness:
  "snd (rotate_certificate_try healthy_env default_config live_rotator no_cert_path_service)
     = Inl (Exc KeyError (quoted ''cert_path'')) \<and>
   snd (rotate_certificate healthy_env default_config live_rotator no_cert_path_service)
     = \<lparr>service = JStr ''orphan'', status = ''failed'', error = Some (quoted ''cert_path''),
        duration = 1\<rparr> \<and>
   snd (rotate_certificate_try crashing_env default_config live_rotator payments_api)
     = Inl (Exc OtherException ''boom'') \<and>
   snd (rotate_certificate crashing_env default_config live_rotator payments_api)
     = \<lparr>service = JStr ''payments-api'', status = ''failed'', error = Some ''boom'',
        duration = 1\<rparr> \<and>
   (\<exists>results. main default_config True False (\<lambda>s. None) (\<lambda>i. 0) (\<lambda>i. healthy_env) (\<lambda>fs. 0)
        [no_cert_path_service, payments_api] = Inr results \<and>
      mset results =
        {#\<lparr>service = JStr ''orphan'', status = ''failed'', error = Some (quoted ''cert_path''),
            duration = 1\<rparr>,
          \<lparr>service = JStr ''payments-api'', status = ''success'', error = None, duration = 1\<rparr>#})"
proof -
  note orphan = rotation_task_never_raises
    [where e = healthy_env and cfg = default_config and r = live_rotator
       and svc = no_cert_path_service and x = "Exc KeyError (quoted ''cert_path'')"
       and force = True and dry = False and fromiso = "\<lambda>s. None" and now = "\<lambda>i. 0"
       and envs = "\<lambda>i. healthy_env" and pick = "\<lambda>fs. 0"
       and services = "[no_cert_path_service, payments_api]"]
  note crash = rotation_task_never_raises
    [where e = crashing_env and cfg = default_config and r = live_rotator
       and svc = payments_api and x = "Exc OtherException ''boom''"
       and force = True and dry = False and fromiso = "\<lambda>s. None" and now = "\<lambda>i. 0"
       and envs = "\<lambda>i. healthy_env" and pick = "\<lambda>fs. 0"
       and services = "[no_cert_path_service, payments_api]"]
  have no_path: "map_of no_cert_path_service ''cert_path'' = None"
    by (simp add: no_cert_path_service_def)
  have orphan_name: "dict_get no_cert_path_service ''name'' (JStr ''unknown'') = JStr ''orphan''"
    by (simp add: dict_get_def no_cert_path_service_def)
  have path: "map_of payments_api ''cert_path'' = Some (JStr ''pki/issue/payments'')"
    by (simp add: payments_api_def)
  have payments_name: "dict_get payments_api ''name'' (JStr ''unknown'') = JStr ''payments-api''"
    by (simp add: dict_get_def payments_api_def)
  have a: "snd (rotate_certificate_try healthy_env default_config live_rotator no_cert_path_service)
             = Inl (Exc KeyError (quoted ''cert_path''))"
    using orphan [THEN conjunct1] by (simp add: no_path)
  have b: "snd (rotate_certificate healthy_env default_config live_rotator no_cert_path_service)
     = \<lparr>service = JStr ''orphan'', status = ''failed'', error = Some (quoted ''cert_path''),
        duration = 1\<rparr>"
    using orphan [THEN conjunct2, THEN conjunct1] by (simp add: a orphan_name healthy_env_sel)
  have c: "snd (rotate_certificate_try crashing_env default_config live_rotator payments_api)
     = Inl (Exc OtherException ''boom'')"
    using crash [THEN conjunct1] by (simp add: path crashing_issuance)
  have d: "snd (rotate_certificate crashing_env default_config live_rotator payments_api)
     = \<lparr>service = JStr ''payments-api'', status = ''failed'', error = Some ''boom'',
        duration = 1\<rparr>"
    using crash [THEN conjunct2, THEN conjunct1] by (simp add: c payments_name crashing_env_sel)
  have e: "\<exists>results. main default_config True False (\<lambda>s. None) (\<lambda>i. 0) (\<lambda>i. healthy_env) (\<lambda>fs. 0)
        [no_cert_path_service, payments_api] = Inr results \<and>
      mset results =
        {#\<lparr>service = JStr ''orphan'', status = ''failed'', error = Some (quoted ''cert_path''),
            duration = 1\<rparr>,
          \<lparr>service = JStr ''payments-api'', status = ''success'', error = None, duration = 1\<rparr>#}"
    using orphan [THEN conjunct2, THEN conjunct2]
    by (simp add: services_to_rotate_force default_workers default_rotator b rotate_payments)
  from a b c d e show ?thesis
    by blast
qed

text \<open>
  Claim C4 as stated has the batch always complete with one outcome per selected service.
  With \<open>MAX_WORKERS\<close> set to 0 the forced pass below selects one service and ends in
  the \<open>ValueError\<close> of the pool constructor.
\<close>

theorem pass_without_workers_counterexample:
  "services_to_rotate zero_workers_config True (\<lambda>s. None) (\<lambda>i. 0) 0 [payments_api] = [payments_api] \<and>
   main zero_workers_config True False (\<lambda>s. None) (\<lambda>i. 0) (\<lambda>i. healthy_env) (\<lambda>fs. 0) [payments_api]
     = Inl (Exc ValueError ''max_workers must be greater than 0'')"
proof -
  have w: "MAX_WORKERS zero_workers_config \<le> 0"
    by (simp add: zero_workers_config_def)
  show ?thesis
    by (simp add: main_def main_tasks_def Let_def services_to_rotate_force w)
qed

text \<open>
  Claim C9. A service with no \<open>reload_method\<close> field is reloaded as if it declared
  \<open>http\<close>: the dispatcher posts to its \<open>reload_endpoint\<close> (in a live run) and reports
  what the HTTP reload reports.
\<close>

theorem missing_reload_method_defaults_to_http:
  assumes "map_of svc ''reload_method'' = None"
  shows "reload_service e cfg r svc = reload_service e cfg r ((''reload_method'', JStr ''http'') # svc) \<and>
         reload_service e cfg r svc =
           (fst (reload_via_http e cfg r (dict_get svc ''reload_endpoint'' JNull)),
            case snd (reload_via_http e cfg r (dict_get svc ''reload_endpoint'' JNull)) of
              Inl x \<Rightarrow> False | Inr ok \<Rightarrow> ok) \<and>
         (if dry_run r then fst (reload_service e cfg r svc) = []
          else fst (reload_service e cfg r svc) =
                 [SessionPost (dict_get svc ''reload_endpoint'' JNull) [] None (REQUEST_TIMEOUT cfg)])"
  using assms
  by (simp add: reload_service_def dict_get_def reload_via_http_def Let_def
      split: prod.splits sum.splits)

theorem missing_reload_method_defaults_to_http_witness:
  "map_of legacy_service ''reload_method'' = None \<and>
   reload_service healthy_env default_config live_rotator legacy_service =
     ([SessionPost (JStr ''http://legacy.internal/reload'') [] None 30], True)"
proof -
  have h: "map_of legacy_service ''reload_method'' = None"
    by (simp add: legacy_service_def)
  have ep: "dict_get legacy_service ''reload_endpoint'' JNull = JStr ''http://legacy.internal/reload''"
    by (simp add: dict_get_def legacy_service_def)
  have http: "reload_via_http healthy_env default_config live_rotator (JStr ''http://legacy.internal/reload'')
      = ([SessionPost (JStr ''http://legacy.internal/reload'') [] None 30], Inr True)"
    by (simp add: reload_via_http_def live_rotator_def healthy_env_sel ok_response_def
        default_config_def Let_def)
  show ?thesis
    using h missing_reload_method_defaults_to_http
      [OF h, of healthy_env default_config live_rotator, THEN conjunct2, THEN conjunct1]
    by (simp add: ep http)
qed

lemma success_needs:
  assumes "status (snd (rotate_certificate e cfg r svc)) = ''success''"
  shows "map_of svc ''cert_path'' \<noteq> None \<and>
         dict_get svc ''reload_method'' (JStr ''http'')
           \<in> {JStr ''http'', JStr ''systemd'', JStr ''kubernetes''}"
proof -
  have "snd (reload_service e cfg r svc)" and "map_of svc ''cert_path'' \<noteq> None"
    using assms
    by (auto simp: rotate_certificate_def rotate_certificate_try_def Let_def
        split: option.splits prod.splits sum.splits if_splits)
  then show ?thesis
    by (auto simp: reload_service_def Let_def split: if_splits)
qed

lemma dry_run_no_calls:
  assumes "dry_run r"
  shows "fst (rotate_certificate e cfg r svc) = []"
  using assms
  by (simp add: rotate_certificate_def rotate_certificate_try_def request_new_certificate_def
      reload_service_def reload_via_http_def reload_via_systemd_def reload_via_kubernetes_def
      Let_def split: option.splits)

lemma dry_run_success:
  assumes "dry_run r" and "map_of svc ''cert_path'' \<noteq> None"
    and "dict_get svc ''reload_method'' (JStr ''http'')
           \<in> {JStr ''http'', JStr ''systemd'', JStr ''kubernetes''}"
  shows "status (snd (rotate_certificate e cfg r svc)) = ''success''"
  using assms
  by (auto simp: rotate_certificate_def rotate_certificate_try_def request_new_certificate_def
      reload_service_def reload_via_http_def reload_via_systemd_def reload_via_kubernetes_def
      Let_def split: option.splits)

text \<open>
  Claim C8. In dry-run mode issuance returns the placeholder certificate and each of the
  three reload strategies returns success, all without a call to a collaborator; a rotation
  makes no call at all, and a service whose rotation can end in \<open>success\<close> (under any
  rotator and any behaviour of the collaborators) ends in \<open>success\<close> in the dry run.
\<close>

theorem dry_run_crosses_no_boundary:
  assumes "dry_run r"
  shows "request_new_certificate e cfg r cert_path common_name =
           ([], Inr (JObj [(''certificate'', JStr ''fake_cert''), (''private_key'', JStr ''fake_key'')])) \<and>
         reload_via_http e cfg r endpoint = ([], Inr True) \<and>
         reload_via_systemd e r service_name = ([], True) \<and>
         reload_via_kubernetes e r namespace deployment = ([], True) \<and>
         fst (rotate_certificate e cfg r svc) = [] \<and>
         (status (snd (rotate_certificate e' cfg' r' svc)) = ''success'' \<longrightarrow>
            status (snd (rotate_certificate e cfg r svc)) = ''success'')"
proof -
  have issue: "request_new_certificate e cfg r cert_path common_name =
           ([], Inr (JObj [(''certificate'', JStr ''fake_cert''), (''private_key'', JStr ''fake_key'')]))"
    using assms by (simp add: request_new_certificate_def)
  have http: "reload_via_http e cfg r endpoint = ([], Inr True)"
    using assms by (simp add: reload_via_http_def)
  have systemd: "reload_via_systemd e r service_name = ([], True)"
    using assms by (simp add: reload_via_systemd_def)
  have k8s: "reload_via_kubernetes e r namespace deployment = ([], True)"
    using assms by (simp add: reload_via_kubernetes_def)
  have keep: "status (snd (rotate_certificate e' cfg' r' svc)) = ''success'' \<longrightarrow>
            status (snd (rotate_certificate e cfg r svc)) = ''success''"
    using success_needs [of e' cfg' r' svc] dry_run_success [OF assms, of svc e cfg]
    by blast
  from issue http systemd k8s dry_run_no_calls [OF assms] keep show ?thesis
    by blast
qed

theorem dry_run_crosses_no_boundary_witness:
  "dry_run dry_rotator \<and>
   status (snd (rotate_certificate healthy_env default_config live_rotator payments_api)) = ''success'' \<and>
   fst (rotate_certificate unreachable_env default_config dry_rotator payments_api) = [] \<and>
   status (snd (rotate_certificate unreachable_env default_config dry_rotator payments_api)) = ''success''"
proof -
  have d: "dry_run dry_rotator"
    by (simp add: dry_rotator_def)
  have live: "status (snd (rotate_certificate healthy_env default_config live_rotator payments_api)) = ''success''"
    by (simp add: rotate_payments)
  show ?thesis
    using d live dry_run_crosses_no_boundary [OF d, of unreachable_env default_config _ _ _ _ _ _
        payments_api healthy_env default_config live_rotator]
    by simp
qed

text \<open>
  Claim C2, as amended. For a service whose reload method is none of \<open>http\<close>,
  \<open>systemd\<close> and \<open>kubernetes\<close>, the dispatcher returns failure without any call, and
  the rotation is never \<open>success\<close>: it is \<open>partial\<close>, with the detail
  \<open>Certificate rotated but service reload failed\<close>, when issuance succeeded, and
  \<open>failed\<close> otherwise.
\<close>

theorem unrecognized_reload_method:
  assumes "dict_get svc ''reload_method'' (JStr ''http'')
             \<notin> {JStr ''http'', JStr ''systemd'', JStr ''kubernetes''}"
  shows "reload_service e cfg r svc = ([], False) \<and>
         status (snd (rotate_certificate e cfg r svc)) \<noteq> ''success'' \<and>
         status (snd (rotate_certificate e cfg r svc)) =
           (case map_of svc ''cert_path'' of
              None \<Rightarrow> ''failed''
            | Some p \<Rightarrow>
                (case snd (request_new_certificate e cfg r p
                            (dict_get svc ''common_name'' (dict_get svc ''name'' (JStr ''unknown'')))) of
                   Inl x \<Rightarrow> ''failed''
                 | Inr cert_data \<Rightarrow> if truthy cert_data then ''partial'' else ''failed'')) \<and>
         (if status (snd (rotate_certificate e cfg r svc)) = ''partial''
          then error (snd (rotate_certificate e cfg r svc))
                 = Some ''Certificate rotated but service reload failed''
          else status (snd (rotate_certificate e cfg r svc)) = ''failed'')"
proof -
  have rl: "reload_service e cfg r svc = ([], False)"
    using assms by (simp add: reload_service_def Let_def)
  have ns: "status (snd (rotate_certificate e cfg r svc)) \<noteq> ''success''"
    using success_needs [of e cfg r svc] assms by blast
  have st: "status (snd (rotate_certificate e cfg r svc)) =
           (case map_of svc ''cert_path'' of
              None \<Rightarrow> ''failed''
            | Some p \<Rightarrow>
                (case snd (request_new_certificate e cfg r p
                            (dict_get svc ''common_name'' (dict_get svc ''name'' (JStr ''unknown'')))) of
                   Inl x \<Rightarrow> ''failed''
                 | Inr cert_data \<Rightarrow> if truthy cert_data then ''partial'' else ''failed''))"
    by (simp add: rotate_certificate_def rotate_certificate_try_def Let_def rl
        split: option.splits prod.splits sum.splits)
  have er: "if status (snd (rotate_certificate e cfg r svc)) = ''partial''
          then error (snd (rotate_certificate e cfg r svc))
                 = Some ''Certificate rotated but service reload failed''
          else status (snd (rotate_certificate e cfg r svc)) = ''failed''"
    by (simp add: rotate_certificate_def rotate_certificate_try_def Let_def rl
        split: option.splits prod.splits sum.splits)
  from rl ns st er show ?thesis
    by blast
qed

lemma batch_worker_method:
  "dict_get unknown_method_service ''reload_method'' (JStr ''http'') = JStr ''sighup''"
  by (simp add: dict_get_def unknown_method_service_def)

lemma batch_worker_rotation:
  "rotate_certificate healthy_env default_config live_rotator unknown_method_service =
     ([SessionPost (JStr ''https://vault.company.internal/v1/pki/issue/batch'')
         [(''X-Vault-Token'', ''s.xxxxx'')] (Some (JObj [(''common_name'', JStr ''batch-worker'')])) 30],
      \<lparr>service = JStr ''batch-worker'', status = ''partial'',
       error = Some ''Certificate rotated but service reload failed'', duration = 1\<rparr>)"
  by (simp add: rotate_certificate_def rotate_certificate_try_def request_new_certificate_def
      reload_service_def read_data_ok dict_get_def unknown_method_service_def
      live_rotator_def default_config_def fmt_def Let_def healthy_env_sel)

theorem unrecognized_reload_method_witness:
  "dict_get unknown_method_service ''reload_method'' (JStr ''http'')
     \<notin> {JStr ''http'', JStr ''systemd'', JStr ''kubernetes''} \<and>
   reload_service healthy_env default_config live_rotator unknown_method_service = ([], False) \<and>
   status (snd (rotate_certificate healthy_env default_config live_rotator unknown_method_service))
     \<noteq> ''success''"
proof -
  have h: "dict_get unknown_method_service ''reload_method'' (JStr ''http'')
     \<notin> {JStr ''http'', JStr ''systemd'', JStr ''kubernetes''}"
    by (simp add: batch_worker_method)
  show ?thesis
    using h unrecognized_reload_method [OF h, of healthy_env default_config live_rotator]
    by blast
qed

text \<open>
  Claim C2 as stated asks for status \<open>failed\<close> with a configuration error. The service
  below has the reload method \<open>sighup\<close>; its certificate is issued and the outcome is
  \<open>partial\<close>.
\<close>

theorem unrecognized_reload_method_counterexample:
  "dict_get unknown_method_service ''reload_method'' (JStr ''http'')
     \<notin> {JStr ''http'', JStr ''systemd'', JStr ''kubernetes''} \<and>
   status (snd (rotate_certificate healthy_env default_config live_rotator unknown_method_service))
     = ''partial'' \<and>
   status (snd (rotate_certificate healthy_env default_config live_rotator unknown_method_service))
     \<noteq> ''failed'' \<and>
   error (snd (rotate_certificate healthy_env default_config live_rotator unknown_method_service))
     = Some ''Certificate rotated but service reload failed''"
  by (simp add: batch_worker_method batch_worker_rotation)

lemma submit_all_names:
  "map (\<lambda>t. service (snd t)) (submit_all envs cfg r svcs) = map reported_name svcs"
  by (rule nth_equalityI) (simp_all add: submit_all_def rotate_certificate_service reported_name_def)

lemma main_tasks_names:
  assumes "main_tasks cfg force dry fromiso now envs services = Inr tasks"
  shows "map (\<lambda>t. service (snd t)) tasks
           = map reported_name (services_to_rotate cfg force fromiso now 0 services)"
  using assms
  by (auto simp: main_tasks_def Let_def submit_all_names split: if_splits)

lemma main_Inr:
  assumes "main cfg force dry fromiso now envs pick services = Inr results"
  shows "\<exists>tasks. main_tasks cfg force dry fromiso now envs services = Inr tasks \<and>
           results = map snd (as_completed pick tasks)"
  using assms by (auto simp: main_def split: sum.splits)

text \<open>
  Claim C1, as amended. A completed pass produces exactly one outcome for each selected
  service: all the services when the force flag is set, and otherwise those the selection
  loop keeps. The service names of the outcomes are, as a multiset, the names of the selected
  services (\<open>unknown\<close> for a service without a name), so they are distinct exactly when
  those names are.
\<close>

theorem one_outcome_per_selected_service:
  assumes "main cfg force dry fromiso now envs pick services = Inr results"
  shows "length results = length (services_to_rotate cfg force fromiso now 0 services) \<and>
         mset (map service results)
           = mset (map reported_name (services_to_rotate cfg force fromiso now 0 services)) \<and>
         distinct (map service results)
           = distinct (map reported_name (services_to_rotate cfg force fromiso now 0 services)) \<and>
         (force \<longrightarrow> services_to_rotate cfg force fromiso now 0 services = services \<and>
                    length results = length services)"
proof -
  from main_Inr [OF assms] obtain tasks
    where t: "main_tasks cfg force dry fromiso now envs services = Inr tasks"
      and r: "results = map snd (as_completed pick tasks)" by blast
  let ?sel = "services_to_rotate cfg force fromiso now 0 services"
  have len: "length results = length ?sel"
    by (simp add: r length_as_completed main_tasks_length [OF t])
  have "mset (map service results) = image_mset (\<lambda>t. service (snd t)) (mset (as_completed pick tasks))"
    by (simp add: r multiset.map_comp comp_def)
  also have "\<dots> = mset (map (\<lambda>t. service (snd t)) tasks)"
    by (simp add: mset_as_completed)
  also have "\<dots> = mset (map reported_name ?sel)"
    by (simp add: main_tasks_names [OF t])
  finally have ms: "mset (map service results) = mset (map reported_name ?sel)" .
  have di: "distinct (map service results) = distinct (map reported_name ?sel)"
    using ms by (rule mset_eq_imp_distinct_iff)
  have fo: "force \<longrightarrow> ?sel = services \<and> length results = length services"
    using len by (auto simp: services_to_rotate_force)
  from len ms di fo show ?thesis
    by blast
qed

lemma placeholder_days_jan_2025:
  "days_until_expiry fromisoformat_sample jan_2025 fake_expiry_date = 410"
  by (simp add: days_until_expiry_def fake_expiry_date_def endswith_Z_def fromisoformat_sample_def
      jan_2025_def timedelta_days_def Let_def)

lemma not_due_pass:
  "main default_config False False fromisoformat_sample (\<lambda>i. jan_2025) envs pick [payments_api] = Inr []"
  by (simp add: main_def main_tasks_def Let_def placeholder_days_jan_2025 default_config_def
      as_completed_Nil)

text \<open>
  Claim C1 as stated promises N outcomes for N services. On 1 January 2025, without the
  force flag, the placeholder expiry is 410 days away: the pass over one service completes
  with no outcome.
\<close>

theorem one_outcome_per_submitted_service_counterexample:
  "length [payments_api] = 1 \<and>
   main default_config False False fromisoformat_sample (\<lambda>i. jan_2025) (\<lambda>i. healthy_env) (\<lambda>fs. 0)
     [payments_api] = Inr []"
  by (simp add: not_due_pass)

lemma rotate_legacy:
  "snd (rotate_certificate healthy_env default_config live_rotator legacy_service) =
     \<lparr>service = JStr ''legacy-api'', status = ''success'', error = None, duration = 1\<rparr>"
  by (simp add: rotate_certificate_def rotate_certificate_try_def request_new_certificate_def
      reload_service_def reload_via_http_def read_data_ok dict_get_def legacy_service_def
      live_rotator_def Let_def healthy_env_sel ok_response_def)

lemma as_completed_swap: "as_completed (\<lambda>fs. Suc 0) [a, b] = [b, a]"
  by (simp add: as_completed.simps)

lemma forced_tasks:
  "main_tasks default_config True False fromiso now (\<lambda>i. healthy_env) [payments_api, legacy_service] =
     Inr [rotate_certificate healthy_env default_config live_rotator payments_api,
          rotate_certificate healthy_env default_config live_rotator legacy_service]"
  by (simp add: main_tasks_def Let_def services_to_rotate_force default_rotator default_workers
      submit_all_def)

lemma forced_pass:
  "main default_config True False fromisoformat_sample (\<lambda>i. jan_2025) (\<lambda>i. healthy_env) (\<lambda>fs. 1)
     [payments_api, legacy_service] =
   Inr [\<lparr>service = JStr ''legacy-api'', status = ''success'', error = None, duration = 1\<rparr>,
        \<lparr>service = JStr ''payments-api'', status = ''success'', error = None, duration = 1\<rparr>]"
  by (simp add: main_def forced_tasks as_completed_swap rotate_legacy rotate_payments)

theorem one_outcome_per_selected_service_witness:
  "main default_config True False fromisoformat_sample (\<lambda>i. jan_2025) (\<lambda>i. healthy_env) (\<lambda>fs. 1)
     [payments_api, legacy_service] =
   Inr [\<lparr>service = JStr ''legacy-api'', status = ''success'', error = None, duration = 1\<rparr>,
        \<lparr>service = JStr ''payments-api'', status = ''success'', error = None, duration = 1\<rparr>] \<and>
   services_to_rotate default_config True fromisoformat_sample (\<lambda>i. jan_2025) 0
     [payments_api, legacy_service] = [payments_api, legacy_service] \<and>
   mset [JStr ''legacy-api'', JStr ''payments-api'']
     = mset (map reported_name [payments_api, legacy_service])"
  using forced_pass one_outcome_per_selected_service [OF forced_pass]
  by simp

lemma services_to_rotate_filter:
  "services_to_rotate cfg False fromiso now i svcs =
     map snd (filter (\<lambda>(k, svc). days_until_expiry fromiso (now k) fake_expiry_date
                                   \<le> ROTATION_BEFORE_DAYS cfg)
                (enumerate i svcs))"
  by (induction svcs arbitrary: i) simp_all

lemma request_new_certificate_no_store_read:
  "list_all (\<lambda>c. \<not> is_store_read c) (fst (request_new_certificate e cfg r p cn))"
  by (simp add: request_new_certificate_def Let_def)

lemma reload_service_no_store_read:
  "list_all (\<lambda>c. \<not> is_store_read c) (fst (reload_service e cfg r svc))"
  by (simp add: reload_service_def reload_via_http_def reload_via_systemd_def
      reload_via_kubernetes_def Let_def split: prod.splits sum.splits)

lemma rotate_certificate_calls:
  "fst (rotate_certificate e cfg r svc) =
     (case map_of svc ''cert_path'' of
        None \<Rightarrow> []
      | Some p \<Rightarrow>
          (case request_new_certificate e cfg r p
                  (dict_get svc ''common_name'' (dict_get svc ''name'' (JStr ''unknown''))) of
             (cs, Inl x) \<Rightarrow> cs
           | (cs, Inr cert_data) \<Rightarrow>
               if truthy cert_data then cs @ fst (reload_service e cfg r svc) else cs))"
  by (simp add: rotate_certificate_def rotate_certificate_try_def Let_def
      split: option.splits prod.splits sum.splits)

lemma rotate_certificate_no_store_read:
  "list_all (\<lambda>c. \<not> is_store_read c) (fst (rotate_certificate e cfg r svc))"
proof (cases "map_of svc ''cert_path''")
  case None
  then show ?thesis
    by (simp add: rotate_certificate_calls)
next
  case (Some p)
  let ?issue = "request_new_certificate e cfg r p
                  (dict_get svc ''common_name'' (dict_get svc ''name'' (JStr ''unknown'')))"
  obtain cs res where iss: "?issue = (cs, res)"
    by (cases ?issue)
  have cs: "list_all (\<lambda>c. \<not> is_store_read c) cs"
    using request_new_certificate_no_store_read [of e cfg r p
        "dict_get svc ''common_name'' (dict_get svc ''name'' (JStr ''unknown''))"]
    by (simp add: iss)
  show ?thesis
    using cs reload_service_no_store_read [of e cfg r svc]
    by (cases res) (simp_all add: rotate_certificate_calls Some iss)
qed

lemma submit_all_no_store_read:
  "list_all (\<lambda>t. list_all (\<lambda>c. \<not> is_store_read c) (fst t)) (submit_all envs cfg r svcs)"
  by (simp add: submit_all_def list_all_iff rotate_certificate_no_store_read [unfolded list_all_iff])

text \<open>
  Claim C5, as amended. Without the force flag, whether a service is selected depends only
  on the placeholder expiry \<open>2026-02-15T00:00:00Z\<close>, the clock reading taken for that
  service and the lead time, each service being decided on its own; and no rotation task of
  the pass reads a certificate from the store, so a pass has no store-read failure to record.
\<close>

theorem selection_uses_placeholder_expiry:
  "services_to_rotate cfg False fromiso now i svcs =
     map snd (filter (\<lambda>(k, svc). days_until_expiry fromiso (now k) fake_expiry_date
                                   \<le> ROTATION_BEFORE_DAYS cfg)
                (enumerate i svcs)) \<and>
   (case main_tasks cfg False dry fromiso now envs services of
      Inl x \<Rightarrow> True
    | Inr tasks \<Rightarrow> list_all (\<lambda>t. list_all (\<lambda>c. \<not> is_store_read c) (fst t)) tasks)"
proof
  show "services_to_rotate cfg False fromiso now i svcs =
     map snd (filter (\<lambda>(k, svc). days_until_expiry fromiso (now k) fake_expiry_date
                                   \<le> ROTATION_BEFORE_DAYS cfg)
                (enumerate i svcs))"
    by (rule services_to_rotate_filter)
next
  show "case main_tasks cfg False dry fromiso now envs services of
      Inl x \<Rightarrow> True
    | Inr tasks \<Rightarrow> list_all (\<lambda>t. list_all (\<lambda>c. \<not> is_store_read c) (fst t)) tasks"
    by (simp add: main_tasks_def Let_def submit_all_no_store_read)
qed

lemma placeholder_days_feb_2026:
  "days_until_expiry fromisoformat_sample feb_2026 fake_expiry_date = 14"
  by (simp add: days_until_expiry_def fake_expiry_date_def endswith_Z_def fromisoformat_sample_def
      feb_2026_def timedelta_days_def Let_def)

lemma default_lead: "ROTATION_BEFORE_DAYS default_config = 30"
  by (simp add: default_config_def)

theorem selection_uses_placeholder_expiry_witness:
  "services_to_rotate default_config False fromisoformat_sample
     (\<lambda>k. if k = 0 then jan_2025 else feb_2026) 0 [payments_api, legacy_service] = [legacy_service]"
  using selection_uses_placeholder_expiry [of default_config fromisoformat_sample
      "\<lambda>k. if k = 0 then jan_2025 else feb_2026" 0 "[payments_api, legacy_service]"]
  by (simp add: placeholder_days_jan_2025 placeholder_days_feb_2026 default_lead enumerate_simps)

lemma store_read_fails:
  "get_current_cert_info unreachable_env default_config live_rotator (JStr ''pki/issue/payments'') =
     ([SessionGet ''https://vault.company.internal/v1/pki/issue/payments''
         [(''X-Vault-Token'', ''s.xxxxx'')] 30], Inr JNull)"
  by (simp add: get_current_cert_info_def read_data_def catch_request_def unreachable_env_def
      live_rotator_def default_config_def fmt_def Let_def)

text \<open>
  Claim C5 as stated has the pass read each service's certificate and record a failed read
  as a \<open>failed\<close> outcome. With a store that refuses every connection, reading the
  certificate of the service below fails, and the pass of 1 January 2025 records nothing.
\<close>

theorem store_read_failure_not_recorded_counterexample:
  "map_of payments_api ''cert_path'' = Some (JStr ''pki/issue/payments'') \<and>
   snd (get_current_cert_info unreachable_env default_config live_rotator (JStr ''pki/issue/payments''))
     = Inr JNull \<and>
   main default_config False False fromisoformat_sample (\<lambda>i. jan_2025) (\<lambda>i. unreachable_env) (\<lambda>fs. 0)
     [payments_api] = Inr []"
proof -
  have "map_of payments_api ''cert_path'' = Some (JStr ''pki/issue/payments'')"
    by (simp add: payments_api_def)
  then show ?thesis
    by (simp add: store_read_fails not_due_pass)
qed

text \<open>
  Claim C6, as amended. For a timestamp that cannot be parsed, \<open>days_until_expiry\<close>
  returns 0, and the selection test \<open>days_left \<le> ROTATION_BEFORE_DAYS\<close> then counts the
  certificate as due exactly when the configured lead time is not negative (the default is
  30).
\<close>

theorem malformed_expiry_counts_as_zero_days:
  assumes "unparseable fromisoformat expiry_iso"
  shows "days_until_expiry fromisoformat now expiry_iso = 0 \<and>
         (days_until_expiry fromisoformat now expiry_iso \<le> ROTATION_BEFORE_DAYS cfg)
           = (0 \<le> ROTATION_BEFORE_DAYS cfg)"
proof -
  have "days_until_expiry fromisoformat now expiry_iso = 0"
    using assms
    by (cases expiry_iso) (simp_all add: unparseable_def days_until_expiry_def Let_def)
  then show ?thesis
    by simp
qed

lemma not_a_date_unparseable: "unparseable fromisoformat_sample (JStr ''not-a-date'')"
  by (simp add: unparseable_def fromisoformat_sample_def endswith_Z_def)

theorem malformed_expiry_counts_as_zero_days_witness:
  "unparseable fromisoformat_sample (JStr ''not-a-date'') \<and>
   unparseable fromisoformat_sample JNull \<and>
   days_until_expiry fromisoformat_sample jan_2025 (JStr ''not-a-date'') = 0 \<and>
   days_until_expiry fromisoformat_sample jan_2025 JNull = 0 \<and>
   days_until_expiry fromisoformat_sample jan_2025 (JStr ''not-a-date'')
     \<le> ROTATION_BEFORE_DAYS default_config"
proof -
  have n: "unparseable fromisoformat_sample JNull"
    by (simp add: unparseable_def)
  show ?thesis
    using not_a_date_unparseable n
      malformed_expiry_counts_as_zero_days [OF not_a_date_unparseable, of jan_2025 default_config]
      malformed_expiry_counts_as_zero_days [OF n, of jan_2025 default_config]
    by (simp add: default_lead)
qed

text \<open>
  Claim C6 as stated holds for every configured lead time. With \<open>ROTATION_BEFORE_DAYS\<close>
  set to \<open>-1\<close> an unparseable timestamp is not due, and a pass whose placeholder cannot
  be parsed selects nothing.
\<close>

theorem malformed_expiry_is_due_counterexample:
  "unparseable fromisoformat_sample (JStr ''not-a-date'') \<and>
   \<not> days_until_expiry fromisoformat_sample jan_2025 (JStr ''not-a-date'')
       \<le> ROTATION_BEFORE_DAYS negative_lead_config \<and>
   services_to_rotate negative_lead_config False (\<lambda>s. None) (\<lambda>i. jan_2025) 0 [payments_api] = []"
proof -
  have "days_until_expiry fromisoformat_sample jan_2025 (JStr ''not-a-date'') = 0"
    by (simp add: days_until_expiry_def fromisoformat_sample_def endswith_Z_def Let_def)
  moreover have "days_until_expiry (\<lambda>s. None) jan_2025 fake_expiry_date = 0"
    by (simp add: days_until_expiry_def fake_expiry_date_def Let_def)
  moreover have "ROTATION_BEFORE_DAYS negative_lead_config = - 1"
    by (simp add: negative_lead_config_def)
  ultimately show ?thesis
    using not_a_date_unparseable by simp
qed






end
